theory Spec2Isabelle
  imports Complex_Main "HOL-Library.Monad_Syntax" "HOL-Library.Multiset"
begin

section \<open>Data model\<close>

text \<open>
  The program is \<^verbatim>\<open>src/covid_analysis.py\<close>: \<^verbatim>\<open>load_data\<close> cleans the table read from the CSV
  file, \<^verbatim>\<open>preprocess_data\<close> aggregates it per date and derives daily deltas and their 7-row
  rolling means, and \<^verbatim>\<open>main\<close> shows four summary metrics and the rows of the latest date.

  A data frame is modelled as the list of its rows, in index order; a column is the list of one
  field over these rows. A missing cell (pandas' NaN, NaT) is \<open>None\<close>.
  Idealisations: integers are unbounded (no int64 wrap-around) and a finite float64 value is an
  exact real.
\<close>

type_synonym date = int
  \<comment> \<open>a timestamp, ordered as \<^verbatim>\<open>datetime64\<close> is\<close>

datatype number = Val real | Infinity | NegInfinity
  \<comment> \<open>a value of an int64 or float64 column that is a number: finite, \<^verbatim>\<open>inf\<close> or \<^verbatim>\<open>-inf\<close>\<close>

datatype cell = NaN | Num number | Str string
  \<comment> \<open>a counter cell as \<^verbatim>\<open>read_csv\<close> delivers it: missing, a number, or a text that the column
      kept as a string\<close>

record raw_row =
  Date_raw :: "string option"
  State_raw :: "string option"
  Confirmed_raw :: cell
  Deaths_raw :: cell
  Cured_raw :: cell

record case_row =
  Date :: "date option"
  State :: "string option"
  Confirmed :: int
  Deaths :: int
  Cured :: int

datatype error =
    ValueError string
  | AttributeError
  | IntCastingNaNError
  \<comment> \<open>\<^verbatim>\<open>ValueError\<close>: what \<^verbatim>\<open>pd.to_datetime\<close> raises (errors='raise' is its default) on a text
      it cannot parse; \<^verbatim>\<open>AttributeError\<close>: what the \<^verbatim>\<open>.str\<close> accessor raises on a column that
      holds no text; \<^verbatim>\<open>IntCastingNaNError\<close>: what \<^verbatim>\<open>.astype(int)\<close> raises on a value that is
      not finite\<close>

section \<open>The loader: \<^verbatim>\<open>load_data\<close>\<close>

text \<open>
  The two parsers of the library are parameters: \<open>parse_date\<close> is what \<^verbatim>\<open>pd.to_datetime\<close> does
  to one text (\<open>None\<close> where it raises), \<open>parse_num\<close> is what \<^verbatim>\<open>pd.to_numeric\<close> does to one text
  (\<open>None\<close> where it cannot read a number).
\<close>

text \<open>\<^verbatim>\<open>cases_df['Date'] = pd.to_datetime(cases_df['Date'])\<close>: a missing cell becomes NaT, a
  text is parsed, and the first text that does not parse raises.\<close>

fun to_datetime :: "(string \<Rightarrow> date option) \<Rightarrow> string option list \<Rightarrow> error + date option list" where
  "to_datetime parse_date [] = Inr []"
| "to_datetime parse_date (None # cs) =
     (case to_datetime parse_date cs of Inl e \<Rightarrow> Inl e | Inr ds \<Rightarrow> Inr (None # ds))"
| "to_datetime parse_date (Some s # cs) =
     (case parse_date s of
        None \<Rightarrow> Inl (ValueError s)
      | Some d \<Rightarrow> (case to_datetime parse_date cs of Inl e \<Rightarrow> Inl e | Inr ds \<Rightarrow> Inr (Some d # ds)))"

text \<open>\<^verbatim>\<open>cases_df['State/UnionTerritory'].str.strip()\<close>: Python's \<^verbatim>\<open>str.strip\<close> on each text,
  a missing cell stays missing. A \<open>char\<close> is a code point below 256; the whitespace of
  \<^verbatim>\<open>str.isspace\<close> among these is 9 to 13, 28 to 32, 133 (U+0085) and 160 (U+00A0). A column
  with rows in which every cell is missing is read as a float64 column, and \<^verbatim>\<open>.str\<close> raises
  on it.\<close>

definition isspace :: "char \<Rightarrow> bool" where
  "isspace c =
     (let n = (of_char c :: nat)
      in (9 \<le> n \<and> n \<le> 13) \<or> (28 \<le> n \<and> n \<le> 32) \<or> n = 133 \<or> n = 160)"

definition strip :: "string \<Rightarrow> string" where
  "strip s = rev (dropWhile isspace (rev (dropWhile isspace s)))"

definition str_strip :: "string option list \<Rightarrow> error + string option list" where
  "str_strip col =
     (if col \<noteq> [] \<and> list_all (\<lambda>c. c = None) col then Inl AttributeError
      else Inr (map (map_option strip) col))"

text \<open>\<^verbatim>\<open>cases_df[col].fillna(0)\<close> on a column as read.\<close>

definition fillna_cell :: "cell \<Rightarrow> cell" where
  "fillna_cell c = (case c of NaN \<Rightarrow> Num (Val 0) | _ \<Rightarrow> c)"

text \<open>\<^verbatim>\<open>pd.to_numeric(col, errors='coerce')\<close>: a number stays, a text is parsed, and what cannot
  be read becomes NaN.\<close>

definition to_numeric :: "(string \<Rightarrow> number option) \<Rightarrow> cell \<Rightarrow> number option" where
  "to_numeric parse_num c = (case c of NaN \<Rightarrow> None | Num v \<Rightarrow> Some v | Str s \<Rightarrow> parse_num s)"

text \<open>\<^verbatim>\<open>.fillna(0)\<close> on the numeric column.\<close>

definition fillna_num :: "number option \<Rightarrow> number" where
  "fillna_num v = (case v of None \<Rightarrow> Val 0 | Some n \<Rightarrow> n)"

text \<open>\<^verbatim>\<open>.astype(int)\<close>: a finite value is truncated toward zero, a value that is not finite
  raises; the column raises when one of its values does.\<close>

definition trunc :: "real \<Rightarrow> int" where
  "trunc x = (if 0 \<le> x then \<lfloor>x\<rfloor> else \<lceil>x\<rceil>)"

definition astype_int :: "number \<Rightarrow> error + int" where
  "astype_int v = (case v of Val x \<Rightarrow> Inr (trunc x) | _ \<Rightarrow> Inl IntCastingNaNError)"

fun column_astype_int :: "number list \<Rightarrow> error + int list" where
  "column_astype_int [] = Inr []"
| "column_astype_int (v # vs) =
     (case astype_int v of
        Inl e \<Rightarrow> Inl e
      | Inr n \<Rightarrow> (case column_astype_int vs of Inl e \<Rightarrow> Inl e | Inr ns \<Rightarrow> Inr (n # ns)))"

text \<open>Lines 25 to 32 for one counter: on one cell, and on the column.\<close>

definition clean_counter :: "(string \<Rightarrow> number option) \<Rightarrow> cell \<Rightarrow> error + int" where
  "clean_counter parse_num c = astype_int (fillna_num (to_numeric parse_num (fillna_cell c)))"

definition clean_column :: "(string \<Rightarrow> number option) \<Rightarrow> cell list \<Rightarrow> error + int list" where
  "clean_column parse_num col =
     column_astype_int (map (\<lambda>c. fillna_num (to_numeric parse_num (fillna_cell c))) col)"

text \<open>\<^verbatim>\<open>drop_duplicates(subset=['Date', 'State/UnionTerritory'], keep='last')\<close>: a row stays
  when no later row has its key; the rows that stay keep their order. Missing values compare
  equal here, as in pandas.\<close>

definition key :: "case_row \<Rightarrow> date option \<times> string option" where
  "key r = (Date r, State r)"

fun drop_duplicates :: "case_row list \<Rightarrow> case_row list" where
  "drop_duplicates [] = []"
| "drop_duplicates (r # rs) =
     (if key r \<in> set (map key rs) then drop_duplicates rs else r # drop_duplicates rs)"

text \<open>\<^verbatim>\<open>sort_values('Date')\<close>: ascending, the rows without a date last
  (\<^verbatim>\<open>na_position='last'\<close>). The order pandas gives to rows of equal date is not fixed by its
  default sort; here they keep their relative order. The derived series is the same for
  every order of the rows (lemma \<open>preprocess_data_permutation\<close>).\<close>

definition sort_values :: "case_row list \<Rightarrow> case_row list" where
  "sort_values T =
     sort_key (\<lambda>r. the (Date r)) (filter (\<lambda>r. Date r \<noteq> None) T) @ filter (\<lambda>r. Date r = None) T"

text \<open>The rows after the column assignments of lines 19 to 32, in the order of the source: the
  dates, the states, then the three counters.\<close>

definition cleaned :: "(string \<Rightarrow> date option) \<Rightarrow> (string \<Rightarrow> number option) \<Rightarrow> raw_row list
    \<Rightarrow> error + case_row list" where
  "cleaned parse_date parse_num raw =
     (case to_datetime parse_date (map Date_raw raw) of
        Inl e \<Rightarrow> Inl e
      | Inr ds \<Rightarrow>
     (case str_strip (map State_raw raw) of
        Inl e \<Rightarrow> Inl e
      | Inr ss \<Rightarrow>
     (case clean_column parse_num (map Confirmed_raw raw) of
        Inl e \<Rightarrow> Inl e
      | Inr cs \<Rightarrow>
     (case clean_column parse_num (map Deaths_raw raw) of
        Inl e \<Rightarrow> Inl e
      | Inr xs \<Rightarrow>
     (case clean_column parse_num (map Cured_raw raw) of
        Inl e \<Rightarrow> Inl e
      | Inr us \<Rightarrow>
          Inr (map (\<lambda>i. \<lparr>Date = ds ! i, State = ss ! i, Confirmed = cs ! i, Deaths = xs ! i,
                          Cured = us ! i\<rparr>) [0..<length raw]))))))"

definition load_data :: "(string \<Rightarrow> date option) \<Rightarrow> (string \<Rightarrow> number option) \<Rightarrow> raw_row list
    \<Rightarrow> error + case_row list" where
  "load_data parse_date parse_num raw =
     (case cleaned parse_date parse_num raw of
        Inl e \<Rightarrow> Inl e
      | Inr rows \<Rightarrow> Inr (sort_values (drop_duplicates rows)))"

text \<open>The date of one cell when every text of the column parses, and what it is for a row of
  the table to be the cleaning of a row of the input.\<close>

definition parsed :: "(string \<Rightarrow> date option) \<Rightarrow> string option \<Rightarrow> date option" where
  "parsed parse_date c = (case c of None \<Rightarrow> None | Some s \<Rightarrow> parse_date s)"

definition cleaning_of :: "(string \<Rightarrow> date option) \<Rightarrow> (string \<Rightarrow> number option) \<Rightarrow> raw_row
    \<Rightarrow> case_row \<Rightarrow> bool" where
  "cleaning_of parse_date parse_num x r =
     (Date r = parsed parse_date (Date_raw x)
      \<and> State r = map_option strip (State_raw x)
      \<and> clean_counter parse_num (Confirmed_raw x) = Inr (Confirmed r)
      \<and> clean_counter parse_num (Deaths_raw x) = Inr (Deaths r)
      \<and> clean_counter parse_num (Cured_raw x) = Inr (Cured r))"

section \<open>The aggregator: \<^verbatim>\<open>preprocess_data\<close>\<close>

record agg_row =
  gDate :: date
  gConfirmed :: int
  gDeaths :: int
  gCured :: int

record series_row =
  sDate :: date
  sConfirmed :: int
  sDeaths :: int
  sCured :: int
  New_Cases :: "real option"
  New_Deaths :: "real option"
  New_Recoveries :: "real option"
  New_Cases_MA :: "real option"
  New_Deaths_MA :: "real option"
  New_Recoveries_MA :: "real option"

text \<open>\<^verbatim>\<open>groupby('Date').agg({'Confirmed': 'sum', 'Deaths': 'sum', 'Cured': 'sum'}).reset_index()\<close>:
  one row per date that occurs, in ascending order of the dates (\<^verbatim>\<open>sort=True\<close>), holding the
  sums over the rows of that date. Rows without a date belong to no group (\<^verbatim>\<open>dropna=True\<close>).\<close>

definition group_keys :: "case_row list \<Rightarrow> date list" where
  "group_keys T = sort (remdups (List.map_filter Date T))"

definition group_sum :: "case_row list \<Rightarrow> date \<Rightarrow> agg_row" where
  "group_sum T d =
     (let g = filter (\<lambda>r. Date r = Some d) T
      in \<lparr>gDate = d, gConfirmed = sum_list (map Confirmed g),
          gDeaths = sum_list (map Deaths g), gCured = sum_list (map Cured g)\<rparr>)"

definition groupby_sum :: "case_row list \<Rightarrow> agg_row list" where
  "groupby_sum T = map (group_sum T) (group_keys T)"

text \<open>\<^verbatim>\<open>Series.diff()\<close> on an integer column: a float column, NaN in the first row.\<close>

definition diff :: "int list \<Rightarrow> real option list" where
  "diff xs =
     (case xs of
        [] \<Rightarrow> []
      | _ # ys \<Rightarrow> None # map2 (\<lambda>a b. Some (real_of_int b - real_of_int a)) xs ys)"

text \<open>\<^verbatim>\<open>Series.fillna(v)\<close> and \<^verbatim>\<open>Series.clip(lower=l)\<close> on a float column; \<^verbatim>\<open>clip\<close> leaves
  NaN as it is.\<close>

definition fillna :: "real \<Rightarrow> real option list \<Rightarrow> real option list" where
  "fillna v xs = map (\<lambda>c. case c of None \<Rightarrow> Some v | Some x \<Rightarrow> Some x) xs"

definition clip_lower :: "real \<Rightarrow> real option list \<Rightarrow> real option list" where
  "clip_lower l xs = map (map_option (max l)) xs"

text \<open>\<^verbatim>\<open>Series.rolling(window=w).mean()\<close>: the window of row \<open>i\<close> is the rows \<open>i - w + 1\<close> to
  \<open>i\<close> that exist; the result is the mean of the window's values that are not NaN when there
  are at least \<open>w\<close> of them (\<^verbatim>\<open>min_periods\<close> defaults to the window size), and NaN otherwise.\<close>

definition window :: "nat \<Rightarrow> 'a list \<Rightarrow> nat \<Rightarrow> 'a list" where
  "window w xs i = drop (Suc i - w) (take (Suc i) xs)"

definition rolling_mean :: "nat \<Rightarrow> real option list \<Rightarrow> real option list" where
  "rolling_mean w xs =
     map (\<lambda>i. let obs = List.map_filter id (window w xs i)
              in if length obs < w then None else Some (sum_list obs / real (length obs)))
         [0..<length xs]"

definition new_column :: "int list \<Rightarrow> real option list" where
  "new_column xs = clip_lower 0 (fillna 0 (diff xs))"

text \<open>Lines 44 to 58: the grouped frame, of all rows or of the rows of the selected state
  (\<^verbatim>\<open>cases_df[cases_df['State/UnionTerritory'] == selected_state].copy()\<close>; a comparison with
  a missing state is false).\<close>

definition select_group :: "case_row list \<Rightarrow> string \<Rightarrow> agg_row list" where
  "select_group cases_df selected_state =
     (if selected_state = ''All India'' then groupby_sum cases_df
      else groupby_sum (filter (\<lambda>r. State r = Some selected_state) cases_df))"

text \<open>Lines 60 to 73: the six columns added to the grouped frame.\<close>

definition add_columns :: "agg_row list \<Rightarrow> series_row list" where
  "add_columns state_data =
     (let new_cases = new_column (map gConfirmed state_data);
          new_deaths = new_column (map gDeaths state_data);
          new_recoveries = new_column (map gCured state_data);
          new_cases_ma = rolling_mean 7 new_cases;
          new_deaths_ma = rolling_mean 7 new_deaths;
          new_recoveries_ma = rolling_mean 7 new_recoveries
      in map (\<lambda>i. \<lparr>sDate = gDate (state_data ! i),
                    sConfirmed = gConfirmed (state_data ! i),
                    sDeaths = gDeaths (state_data ! i),
                    sCured = gCured (state_data ! i),
                    New_Cases = new_cases ! i,
                    New_Deaths = new_deaths ! i,
                    New_Recoveries = new_recoveries ! i,
                    New_Cases_MA = new_cases_ma ! i,
                    New_Deaths_MA = new_deaths_ma ! i,
                    New_Recoveries_MA = new_recoveries_ma ! i\<rparr>)
             [0..<length state_data])"

definition preprocess_data :: "case_row list \<Rightarrow> string \<Rightarrow> series_row list" where
  "preprocess_data cases_df selected_state = add_columns (select_group cases_df selected_state)"

text \<open>The values of a delta column: present in every row, since \<^verbatim>\<open>fillna(0)\<close> leaves no NaN.\<close>

definition deltas :: "int list \<Rightarrow> real list" where
  "deltas xs = map (\<lambda>c. max 0 (case c of None \<Rightarrow> 0 | Some x \<Rightarrow> x)) (diff xs)"

text \<open>The rows that are grouped: all of them, or those of the selected state.\<close>

definition selected_rows :: "case_row list \<Rightarrow> string \<Rightarrow> case_row list" where
  "selected_rows T s = (if s = ''All India'' then T else filter (\<lambda>r. State r = Some s) T)"

section \<open>The summary metrics of \<^verbatim>\<open>main\<close>\<close>

text \<open>\<^verbatim>\<open>Series.max()\<close>: the greatest value of the column, NaN for a column without rows.
  Arithmetic on NaN gives NaN.\<close>

definition col_max :: "int list \<Rightarrow> int option" where
  "col_max xs = (case xs of [] \<Rightarrow> None | x # ys \<Rightarrow> Some (fold max ys x))"

definition nan_minus :: "int option \<Rightarrow> int option \<Rightarrow> int option" where
  "nan_minus a b = (case a of None \<Rightarrow> None | Some x \<Rightarrow> (case b of None \<Rightarrow> None | Some y \<Rightarrow> Some (x - y)))"

record metrics =
  Total_Cases :: "int option"
  Total_Deaths :: "int option"
  Total_Recoveries :: "int option"
  Active_Cases :: "int option"

definition main_metrics :: "series_row list \<Rightarrow> metrics" where
  "main_metrics state_data =
     \<lparr>Total_Cases = col_max (map sConfirmed state_data),
      Total_Deaths = col_max (map sDeaths state_data),
      Total_Recoveries = col_max (map sCured state_data),
      Active_Cases =
        nan_minus (nan_minus (col_max (map sConfirmed state_data)) (col_max (map sCured state_data)))
                  (col_max (map sDeaths state_data))\<rparr>"

text \<open>\<^verbatim>\<open>state_data[state_data['Date'] == state_data['Date'].max()]\<close>\<close>

definition latest_data :: "series_row list \<Rightarrow> series_row list" where
  "latest_data state_data =
     filter (\<lambda>r. Some (sDate r) = col_max (map sDate state_data)) state_data"

section \<open>Data frames as objects: what \<^verbatim>\<open>preprocess_data\<close> allocates and what it assigns to\<close>

text \<open>
  In Python a data frame is an object, \<^verbatim>\<open>cases_df\<close> and \<^verbatim>\<open>state_data\<close> are references to
  objects, and \<^verbatim>\<open>state_data['New Cases'] = ...\<close> changes the object that \<^verbatim>\<open>state_data\<close>
  refers to. Here the store is the list of the frames that exist, a reference is a position in
  it, and a frame is the list of its columns by name, in column order. Indexing with a boolean
  mask, \<^verbatim>\<open>.copy()\<close> and \<^verbatim>\<open>.groupby(...).agg(...).reset_index()\<close> each give a new frame;
  a column that is read (\<^verbatim>\<open>state_data['Confirmed']\<close>) and the results of \<^verbatim>\<open>diff\<close>,
  \<^verbatim>\<open>fillna\<close>, \<^verbatim>\<open>clip\<close> and \<^verbatim>\<open>rolling(...).mean()\<close> are values. \<open>None\<close> stands for
  an exception (a column that is missing, a dangling reference).
\<close>

datatype column =
    DateCol "date option list"
  | StrCol "string option list"
  | IntCol "int list"
  | FloatCol "real option list"

type_synonym frame = "(string \<times> column) list"

type_synonym ref = nat

type_synonym store = "frame list"

definition frame_of_cases :: "case_row list \<Rightarrow> frame" where
  "frame_of_cases T =
     [(''Date'', DateCol (map Date T)),
      (''State/UnionTerritory'', StrCol (map State T)),
      (''Confirmed'', IntCol (map Confirmed T)),
      (''Deaths'', IntCol (map Deaths T)),
      (''Cured'', IntCol (map Cured T))]"

definition frame_of_groups :: "agg_row list \<Rightarrow> frame" where
  "frame_of_groups g =
     [(''Date'', DateCol (map (\<lambda>r. Some (gDate r)) g)),
      (''Confirmed'', IntCol (map gConfirmed g)),
      (''Deaths'', IntCol (map gDeaths g)),
      (''Cured'', IntCol (map gCured g))]"

definition frame_of_series :: "series_row list \<Rightarrow> frame" where
  "frame_of_series S =
     [(''Date'', DateCol (map (\<lambda>r. Some (sDate r)) S)),
      (''Confirmed'', IntCol (map sConfirmed S)),
      (''Deaths'', IntCol (map sDeaths S)),
      (''Cured'', IntCol (map sCured S)),
      (''New Cases'', FloatCol (map New_Cases S)),
      (''New Deaths'', FloatCol (map New_Deaths S)),
      (''New Recoveries'', FloatCol (map New_Recoveries S)),
      (''New Cases MA'', FloatCol (map New_Cases_MA S)),
      (''New Deaths MA'', FloatCol (map New_Deaths_MA S)),
      (''New Recoveries MA'', FloatCol (map New_Recoveries_MA S))]"

text \<open>The rows of a frame that has the five columns of the case table.\<close>

definition rows_of_frame :: "frame \<Rightarrow> case_row list option" where
  "rows_of_frame f =
     (case (map_of f ''Date'', map_of f ''State/UnionTerritory'', map_of f ''Confirmed'',
            map_of f ''Deaths'', map_of f ''Cured'') of
        (Some (DateCol d), Some (StrCol s), Some (IntCol c), Some (IntCol x), Some (IntCol u)) \<Rightarrow>
          Some (map (\<lambda>i. \<lparr>Date = d ! i, State = s ! i, Confirmed = c ! i, Deaths = x ! i,
                          Cured = u ! i\<rparr>) [0..<length d])
      | _ \<Rightarrow> None)"

text \<open>A new object: the store grows by one frame, no frame that exists changes.\<close>

definition alloc :: "store \<Rightarrow> frame \<Rightarrow> store \<times> ref" where
  "alloc h f = (h @ [f], length h)"

definition deref :: "store \<Rightarrow> ref \<Rightarrow> frame option" where
  "deref h a = (if a < length h then Some (h ! a) else None)"

text \<open>\<^verbatim>\<open>frame[name] = col\<close>: the column is replaced where it stands, or added as the last
  column; the frame at \<open>a\<close> is changed in place.\<close>

fun set_column :: "string \<Rightarrow> column \<Rightarrow> frame \<Rightarrow> frame" where
  "set_column name col [] = [(name, col)]"
| "set_column name col ((n, c) # f) =
     (if n = name then (n, col) # f else (n, c) # set_column name col f)"

definition setitem :: "store \<Rightarrow> ref \<Rightarrow> string \<Rightarrow> column option \<Rightarrow> store option" where
  "setitem h a name v =
     (case v of
        None \<Rightarrow> None
      | Some col \<Rightarrow> (case deref h a of None \<Rightarrow> None
                     | Some f \<Rightarrow> Some (h[a := set_column name col f])))"

text \<open>\<^verbatim>\<open>frame[name]\<close> for an integer and for a float column.\<close>

definition get_ints :: "store \<Rightarrow> ref \<Rightarrow> string \<Rightarrow> int list option" where
  "get_ints h a name =
     (case deref h a of
        None \<Rightarrow> None
      | Some f \<Rightarrow> (case map_of f name of Some (IntCol xs) \<Rightarrow> Some xs | _ \<Rightarrow> None))"

definition get_floats :: "store \<Rightarrow> ref \<Rightarrow> string \<Rightarrow> real option list option" where
  "get_floats h a name =
     (case deref h a of
        None \<Rightarrow> None
      | Some f \<Rightarrow> (case map_of f name of Some (FloatCol xs) \<Rightarrow> Some xs | _ \<Rightarrow> None))"

text \<open>\<^verbatim>\<open>cases_df[cases_df['State/UnionTerritory'] == selected_state]\<close>: a new frame of the rows
  where the mask holds.\<close>

definition mask_column :: "bool list \<Rightarrow> column \<Rightarrow> column" where
  "mask_column m col =
     (case col of
        DateCol xs \<Rightarrow> DateCol (map snd (filter fst (zip m xs)))
      | StrCol xs \<Rightarrow> StrCol (map snd (filter fst (zip m xs)))
      | IntCol xs \<Rightarrow> IntCol (map snd (filter fst (zip m xs)))
      | FloatCol xs \<Rightarrow> FloatCol (map snd (filter fst (zip m xs))))"

definition select_state :: "store \<Rightarrow> ref \<Rightarrow> string \<Rightarrow> (store \<times> ref) option" where
  "select_state h a selected_state =
     (case deref h a of
        None \<Rightarrow> None
      | Some f \<Rightarrow>
          (case map_of f ''State/UnionTerritory'' of
             Some (StrCol s) \<Rightarrow>
               Some (alloc h (map (\<lambda>(n, c). (n, mask_column (map (\<lambda>v. v = Some selected_state) s) c)) f))
           | _ \<Rightarrow> None))"

text \<open>\<^verbatim>\<open>.copy()\<close>\<close>

definition copy :: "store \<Rightarrow> ref \<Rightarrow> (store \<times> ref) option" where
  "copy h a = (case deref h a of None \<Rightarrow> None | Some f \<Rightarrow> Some (alloc h f))"

text \<open>\<^verbatim>\<open>.groupby('Date').agg({...}).reset_index()\<close>: a new frame of the grouped sums.\<close>

definition groupby_agg :: "store \<Rightarrow> ref \<Rightarrow> (store \<times> ref) option" where
  "groupby_agg h a =
     (case deref h a of
        None \<Rightarrow> None
      | Some f \<Rightarrow> (case rows_of_frame f of
                     None \<Rightarrow> None
                   | Some T \<Rightarrow> Some (alloc h (frame_of_groups (groupby_sum T)))))"

text \<open>Lines 60 to 73 on the store: nine assignments to the frame that \<open>state_data\<close> refers
  to, each from a column read from this frame.\<close>

definition assign_columns :: "store \<Rightarrow> ref \<Rightarrow> store option" where
  "assign_columns h0 state_data =
     do {
       h1 \<leftarrow> setitem h0 state_data ''New Cases''
               (map_option (\<lambda>xs. FloatCol (fillna 0 (diff xs))) (get_ints h0 state_data ''Confirmed''));
       h2 \<leftarrow> setitem h1 state_data ''New Deaths''
               (map_option (\<lambda>xs. FloatCol (fillna 0 (diff xs))) (get_ints h1 state_data ''Deaths''));
       h3 \<leftarrow> setitem h2 state_data ''New Recoveries''
               (map_option (\<lambda>xs. FloatCol (fillna 0 (diff xs))) (get_ints h2 state_data ''Cured''));
       h4 \<leftarrow> setitem h3 state_data ''New Cases''
               (map_option (\<lambda>xs. FloatCol (clip_lower 0 xs)) (get_floats h3 state_data ''New Cases''));
       h5 \<leftarrow> setitem h4 state_data ''New Deaths''
               (map_option (\<lambda>xs. FloatCol (clip_lower 0 xs)) (get_floats h4 state_data ''New Deaths''));
       h6 \<leftarrow> setitem h5 state_data ''New Recoveries''
               (map_option (\<lambda>xs. FloatCol (clip_lower 0 xs)) (get_floats h5 state_data ''New Recoveries''));
       h7 \<leftarrow> setitem h6 state_data ''New Cases MA''
               (map_option (\<lambda>xs. FloatCol (rolling_mean 7 xs)) (get_floats h6 state_data ''New Cases''));
       h8 \<leftarrow> setitem h7 state_data ''New Deaths MA''
               (map_option (\<lambda>xs. FloatCol (rolling_mean 7 xs)) (get_floats h7 state_data ''New Deaths''));
       setitem h8 state_data ''New Recoveries MA''
         (map_option (\<lambda>xs. FloatCol (rolling_mean 7 xs)) (get_floats h8 state_data ''New Recoveries''))
     }"

text \<open>\<^verbatim>\<open>preprocess_data\<close> on the store: \<open>cases_df\<close> is the reference it is called with, the
  result is the store it leaves and the reference it returns.\<close>

definition preprocess_data_store :: "store \<Rightarrow> ref \<Rightarrow> string \<Rightarrow> (store \<times> ref) option" where
  "preprocess_data_store h cases_df selected_state =
     do {
       (h0, state_data) \<leftarrow>
         (if selected_state = ''All India'' then groupby_agg h cases_df
          else do {
            (h', selected) \<leftarrow> select_state h cases_df selected_state;
            (h'', copied) \<leftarrow> copy h' selected;
            groupby_agg h'' copied
          });
       h9 \<leftarrow> assign_columns h0 state_data;
       Some (h9, state_data)
     }"

section \<open>Example tables\<close>

definition example_corrected :: "case_row list" where
  "example_corrected =
     [\<lparr>Date = Some 0, State = Some ''A'', Confirmed = 10, Deaths = 1, Cured = 0\<rparr>,
      \<lparr>Date = Some 1, State = Some ''A'', Confirmed = 12, Deaths = 2, Cured = 5\<rparr>,
      \<lparr>Date = Some 2, State = Some ''A'', Confirmed = 8, Deaths = 2, Cured = 3\<rparr>]"

text \<open>Ten rows of one state with gaps between the dates; the daily deltas are 0, 1, ..., 9.\<close>

definition example_ten_days :: "case_row list" where
  "example_ten_days =
     map (\<lambda>(d, c). \<lparr>Date = Some d, State = Some ''A'', Confirmed = c, Deaths = 0, Cured = 0\<rparr>)
       [(0, 0), (1, 1), (2, 3), (3, 6), (4, 10), (5, 15), (12, 21), (20, 28), (21, 36), (30, 45)]"

definition example_two_regions :: "case_row list" where
  "example_two_regions =
     [\<lparr>Date = Some 0, State = Some ''A'', Confirmed = 10, Deaths = 0, Cured = 0\<rparr>,
      \<lparr>Date = Some 0, State = Some ''B'', Confirmed = 5, Deaths = 0, Cured = 0\<rparr>,
      \<lparr>Date = Some 1, State = Some ''A'', Confirmed = 20, Deaths = 0, Cured = 0\<rparr>,
      \<lparr>Date = Some 1, State = Some ''B'', Confirmed = 15, Deaths = 0, Cured = 0\<rparr>]"

text \<open>Parsers for the examples: two dates and two numbers are read, nothing else.\<close>

definition example_parse_date :: "string \<Rightarrow> date option" where
  "example_parse_date s =
     (if s = ''2020-01-30'' then Some 0 else if s = ''2020-01-31'' then Some 1 else None)"

definition example_parse_num :: "string \<Rightarrow> number option" where
  "example_parse_num s =
     (if s = ''12'' then Some (Val 12) else if s = ''3.7'' then Some (Val (37 / 10)) else None)"

definition example_duplicates :: "raw_row list" where
  "example_duplicates =
     [\<lparr>Date_raw = Some ''2020-01-31'', State_raw = Some '' A '', Confirmed_raw = Num (Val 10),
       Deaths_raw = NaN, Cured_raw = Str ''x''\<rparr>,
      \<lparr>Date_raw = Some ''2020-01-30'', State_raw = Some ''A'', Confirmed_raw = Num (Val 7),
       Deaths_raw = Num (Val 1), Cured_raw = Num (Val 2)\<rparr>,
      \<lparr>Date_raw = Some ''2020-01-31'', State_raw = Some ''A'', Confirmed_raw = Num (Val 11),
       Deaths_raw = Num (Val 3), Cured_raw = Str ''12''\<rparr>]"




text \<open>Counters that regress: confirmed, deaths and cured of one state on three dates.\<close>

definition example_regressing :: "case_row list" where
  "example_regressing =
     [\<lparr>Date = Some 0, State = Some ''A'', Confirmed = 100, Deaths = 0, Cured = 90\<rparr>,
      \<lparr>Date = Some 1, State = Some ''A'', Confirmed = 100, Deaths = 10, Cured = 0\<rparr>,
      \<lparr>Date = Some 2, State = Some ''A'', Confirmed = 60, Deaths = 10, Cured = 20\<rparr>]"

section \<open>Columns of the derived series\<close>

lemma length_diff: "length (diff xs) = length xs"
  by (cases xs) (simp_all add: diff_def)

lemma length_new_column: "length (new_column xs) = length xs"
  by (simp add: new_column_def clip_lower_def fillna_def length_diff)

lemma length_rolling_mean: "length (rolling_mean w xs) = length xs"
  by (simp add: rolling_mean_def)

lemma length_add_columns: "length (add_columns g) = length g"
  by (simp add: add_columns_def Let_def)

lemma diff_nth_0: "xs \<noteq> [] \<Longrightarrow> diff xs ! 0 = None"
  by (cases xs) (simp_all add: diff_def)

lemma diff_nth: "0 < i \<Longrightarrow> i < length xs \<Longrightarrow> diff xs ! i = Some (real_of_int (xs ! i) - real_of_int (xs ! (i - 1)))"
  by (cases xs; cases i) (simp_all add: diff_def)

lemma new_column_nth_0: "xs \<noteq> [] \<Longrightarrow> new_column xs ! 0 = Some 0"
  by (simp add: new_column_def clip_lower_def fillna_def length_diff diff_nth_0)

lemma new_column_nth:
  "0 < i \<Longrightarrow> i < length xs \<Longrightarrow> new_column xs ! i = Some (max 0 (real_of_int (xs ! i) - real_of_int (xs ! (i - 1))))"
  by (simp add: new_column_def clip_lower_def fillna_def length_diff diff_nth)

lemma new_column_defined: "i < length xs \<Longrightarrow> \<exists>v. new_column xs ! i = Some v \<and> 0 \<le> v"
  by (cases "i = 0") (auto simp: new_column_nth_0 new_column_nth)

lemma add_columns_nth:
  "i < length g \<Longrightarrow> add_columns g ! i =
     \<lparr>sDate = gDate (g ! i), sConfirmed = gConfirmed (g ! i), sDeaths = gDeaths (g ! i), sCured = gCured (g ! i),
      New_Cases = new_column (map gConfirmed g) ! i,
      New_Deaths = new_column (map gDeaths g) ! i,
      New_Recoveries = new_column (map gCured g) ! i,
      New_Cases_MA = rolling_mean 7 (new_column (map gConfirmed g)) ! i,
      New_Deaths_MA = rolling_mean 7 (new_column (map gDeaths g)) ! i,
      New_Recoveries_MA = rolling_mean 7 (new_column (map gCured g)) ! i\<rparr>"
  by (simp add: add_columns_def Let_def)

lemma window_nth_eq: "i < length xs \<Longrightarrow> window w xs i = map (\<lambda>k. xs ! k) [Suc i - w..<Suc i]"
  by (rule nth_equalityI) (auto simp: window_def simp del: upt_Suc)

lemma window_map: "window w (map f vs) i = map f (window w vs i)"
  by (simp add: window_def take_map drop_map)

lemma map_filter_id_Some: "List.map_filter id (map Some ys) = ys"
  by (induction ys) (simp_all add: List.map_filter_def)

lemma new_column_Some: "new_column xs = map Some (deltas xs)"
  by (simp add: new_column_def deltas_def clip_lower_def fillna_def split: option.splits)

lemma length_deltas: "length (deltas xs) = length xs"
  by (simp add: deltas_def length_diff)

lemma rolling_mean_Some_nth:
  "i < length vs \<Longrightarrow> rolling_mean w (map Some vs) ! i =
     (if length (window w vs i) < w then None
      else Some (sum_list (window w vs i) / real (length (window w vs i))))"
  by (simp add: rolling_mean_def window_map map_filter_id_Some Let_def)

lemma length_window: "i < length vs \<Longrightarrow> length (window w vs i) = Suc i - (Suc i - w)"
  by (simp add: window_def)

lemma rolling_new_column_ge:
  assumes "6 \<le> i" "i < length xs"
  shows "\<exists>vs. map (\<lambda>k. new_column xs ! k) [i - 6..<Suc i] = map Some vs
            \<and> rolling_mean 7 (new_column xs) ! i = Some (sum_list vs / 7)"
proof -
  let ?vs = "window 7 (deltas xs) i"
  have i: "i < length (deltas xs)" using assms by (simp add: length_deltas)
  have len: "length ?vs = 7" using assms i by (simp add: length_window)
  have "window 7 (new_column xs) i = map (\<lambda>k. new_column xs ! k) [Suc i - 7..<Suc i]"
    using assms by (simp add: window_nth_eq length_new_column)
  moreover have "Suc i - 7 = i - 6" by simp
  ultimately have "map (\<lambda>k. new_column xs ! k) [i - 6..<Suc i] = map Some ?vs"
    by (simp add: new_column_Some window_map)
  moreover have "rolling_mean 7 (new_column xs) ! i = Some (sum_list ?vs / 7)"
    using i len by (simp add: new_column_Some rolling_mean_Some_nth)
  ultimately show ?thesis by blast
qed

lemma rolling_new_column_lt:
  assumes "i < 6" "i < length xs"
  shows "rolling_mean 7 (new_column xs) ! i = None"
proof -
  have i: "i < length (deltas xs)" using assms by (simp add: length_deltas)
  have "length (window 7 (deltas xs) i) < 7" using assms i by (simp add: length_window)
  then show ?thesis using i by (simp add: new_column_Some rolling_mean_Some_nth)
qed

lemma length_preprocess_data: "length (preprocess_data T s) = length (select_group T s)"
  by (simp add: preprocess_data_def length_add_columns)

lemma preprocess_data_nth:
  "i < length (preprocess_data T s) \<Longrightarrow>
     preprocess_data T s ! i =
       \<lparr>sDate = gDate (select_group T s ! i), sConfirmed = gConfirmed (select_group T s ! i),
        sDeaths = gDeaths (select_group T s ! i), sCured = gCured (select_group T s ! i),
        New_Cases = new_column (map gConfirmed (select_group T s)) ! i,
        New_Deaths = new_column (map gDeaths (select_group T s)) ! i,
        New_Recoveries = new_column (map gCured (select_group T s)) ! i,
        New_Cases_MA = rolling_mean 7 (new_column (map gConfirmed (select_group T s))) ! i,
        New_Deaths_MA = rolling_mean 7 (new_column (map gDeaths (select_group T s))) ! i,
        New_Recoveries_MA = rolling_mean 7 (new_column (map gCured (select_group T s))) ! i\<rparr>"
  by (simp add: preprocess_data_def length_add_columns add_columns_nth)

text \<open>
  Claim C4. In every derived series and at every row index \<open>i > 0\<close>, each daily delta is the
  difference of the consecutive cumulative values floored at zero, and in every row the three
  deltas are present and not negative.
\<close>

theorem daily_deltas_clipped:
  assumes "series = preprocess_data T s"
  shows "(\<forall>i. 0 < i \<and> i < length series \<longrightarrow>
            New_Cases (series ! i) =
              Some (max 0 (real_of_int (sConfirmed (series ! i)) - real_of_int (sConfirmed (series ! (i - 1)))))
          \<and> New_Deaths (series ! i) =
              Some (max 0 (real_of_int (sDeaths (series ! i)) - real_of_int (sDeaths (series ! (i - 1)))))
          \<and> New_Recoveries (series ! i) =
              Some (max 0 (real_of_int (sCured (series ! i)) - real_of_int (sCured (series ! (i - 1))))))
       \<and> (\<forall>r \<in> set series.
            (\<exists>v. New_Cases r = Some v \<and> 0 \<le> v) \<and> (\<exists>v. New_Deaths r = Some v \<and> 0 \<le> v)
          \<and> (\<exists>v. New_Recoveries r = Some v \<and> 0 \<le> v))"
proof (intro conjI allI impI ballI)
  fix i assume i: "0 < i \<and> i < length series"
  then have l: "i < length (select_group T s)" "i - 1 < length (preprocess_data T s)"
    using assms by (auto simp: length_preprocess_data)
  show "New_Cases (series ! i) =
      Some (max 0 (real_of_int (sConfirmed (series ! i)) - real_of_int (sConfirmed (series ! (i - 1)))))"
    using i l unfolding assms by (simp add: preprocess_data_nth new_column_nth)
  show "New_Deaths (series ! i) =
      Some (max 0 (real_of_int (sDeaths (series ! i)) - real_of_int (sDeaths (series ! (i - 1)))))"
    using i l unfolding assms by (simp add: preprocess_data_nth new_column_nth)
  show "New_Recoveries (series ! i) =
      Some (max 0 (real_of_int (sCured (series ! i)) - real_of_int (sCured (series ! (i - 1)))))"
    using i l unfolding assms by (simp add: preprocess_data_nth new_column_nth)
next
  fix r assume "r \<in> set series"
  then obtain i where i: "i < length (preprocess_data T s)" and r: "r = preprocess_data T s ! i"
    unfolding assms by (auto simp: in_set_conv_nth)
  then have l: "i < length (select_group T s)" by (simp add: length_preprocess_data)
  show "\<exists>v. New_Cases r = Some v \<and> 0 \<le> v"
    using i l new_column_defined [of i "map gConfirmed (select_group T s)"]
    by (simp add: r preprocess_data_nth)
  show "\<exists>v. New_Deaths r = Some v \<and> 0 \<le> v"
    using i l new_column_defined [of i "map gDeaths (select_group T s)"]
    by (simp add: r preprocess_data_nth)
  show "\<exists>v. New_Recoveries r = Some v \<and> 0 \<le> v"
    using i l new_column_defined [of i "map gCured (select_group T s)"]
    by (simp add: r preprocess_data_nth)
qed

lemma ex_corrected_series:
  "preprocess_data example_corrected ''A'' =
     [\<lparr>sDate = 0, sConfirmed = 10, sDeaths = 1, sCured = 0, New_Cases = Some 0, New_Deaths = Some 0,
       New_Recoveries = Some 0, New_Cases_MA = None, New_Deaths_MA = None, New_Recoveries_MA = None\<rparr>,
      \<lparr>sDate = 1, sConfirmed = 12, sDeaths = 2, sCured = 5, New_Cases = Some 2, New_Deaths = Some 1,
       New_Recoveries = Some 5, New_Cases_MA = None, New_Deaths_MA = None, New_Recoveries_MA = None\<rparr>,
      \<lparr>sDate = 2, sConfirmed = 8, sDeaths = 2, sCured = 3, New_Cases = Some 0, New_Deaths = Some 0,
       New_Recoveries = Some 0, New_Cases_MA = None, New_Deaths_MA = None, New_Recoveries_MA = None\<rparr>]"
  by code_simp

theorem daily_deltas_clipped_witness:
  "New_Cases (preprocess_data example_corrected ''A'' ! 2) = Some 0
   \<and> New_Deaths (preprocess_data example_corrected ''A'' ! 1) = Some 1
   \<and> New_Recoveries (preprocess_data example_corrected ''A'' ! 1) = Some 5
   \<and> (\<exists>v. New_Cases (preprocess_data example_corrected ''A'' ! 0) = Some v \<and> 0 \<le> v)"
proof -
  note inst = daily_deltas_clipped [OF refl, of example_corrected "''A''"]
  have len: "length (preprocess_data example_corrected ''A'') = 3"
    by (simp add: ex_corrected_series)
  from inst have a: "New_Cases (preprocess_data example_corrected ''A'' ! 2) =
      Some (max 0 (real_of_int (sConfirmed (preprocess_data example_corrected ''A'' ! 2))
                 - real_of_int (sConfirmed (preprocess_data example_corrected ''A'' ! (2 - 1)))))"
    using len by simp
  from inst have b: "New_Deaths (preprocess_data example_corrected ''A'' ! 1) =
      Some (max 0 (real_of_int (sDeaths (preprocess_data example_corrected ''A'' ! 1))
                 - real_of_int (sDeaths (preprocess_data example_corrected ''A'' ! (1 - 1)))))"
    using len by simp
  from inst have c: "New_Recoveries (preprocess_data example_corrected ''A'' ! 1) =
      Some (max 0 (real_of_int (sCured (preprocess_data example_corrected ''A'' ! 1))
                 - real_of_int (sCured (preprocess_data example_corrected ''A'' ! (1 - 1)))))"
    using len by simp
  have "preprocess_data example_corrected ''A'' ! 0 \<in> set (preprocess_data example_corrected ''A'')"
    using len by simp
  with inst have d: "\<exists>v. New_Cases (preprocess_data example_corrected ''A'' ! 0) = Some v \<and> 0 \<le> v"
    by blast
  have e: "sConfirmed (preprocess_data example_corrected ''A'' ! 2) = 8"
     "sConfirmed (preprocess_data example_corrected ''A'' ! (2 - 1)) = 12"
     "sDeaths (preprocess_data example_corrected ''A'' ! 1) = 2"
     "sDeaths (preprocess_data example_corrected ''A'' ! (1 - 1)) = 1"
     "sCured (preprocess_data example_corrected ''A'' ! 1) = 5"
     "sCured (preprocess_data example_corrected ''A'' ! (1 - 1)) = 0"
    by (simp_all add: ex_corrected_series)
  show ?thesis using a b c d unfolding e by simp
qed

text \<open>
  Claim C5. In every derived series that has a row, the three deltas of the first row are 0,
  whatever its cumulative values are.
\<close>

theorem first_row_zero_delta:
  assumes "preprocess_data T s \<noteq> []"
  shows "New_Cases (hd (preprocess_data T s)) = Some 0
       \<and> New_Deaths (hd (preprocess_data T s)) = Some 0
       \<and> New_Recoveries (hd (preprocess_data T s)) = Some 0"
proof -
  have pos: "0 < length (preprocess_data T s)" using assms by simp
  then have g: "select_group T s \<noteq> []" by (simp add: length_preprocess_data)
  have "hd (preprocess_data T s) = preprocess_data T s ! 0"
    using assms by (simp add: hd_conv_nth)
  then show ?thesis using pos g by (simp add: preprocess_data_nth new_column_nth_0)
qed

theorem first_row_zero_delta_witness:
  "preprocess_data example_two_regions ''A'' \<noteq> []
   \<and> sConfirmed (hd (preprocess_data example_two_regions ''A'')) = 10
   \<and> New_Cases (hd (preprocess_data example_two_regions ''A'')) = Some 0
   \<and> New_Deaths (hd (preprocess_data example_two_regions ''A'')) = Some 0
   \<and> New_Recoveries (hd (preprocess_data example_two_regions ''A'')) = Some 0"
proof -
  have ne: "preprocess_data example_two_regions ''A'' \<noteq> []" by code_simp
  have c: "sConfirmed (hd (preprocess_data example_two_regions ''A'')) = 10" by code_simp
  show ?thesis using first_row_zero_delta [OF ne] ne c by simp
qed

text \<open>
  Claim C6. In every derived series the smoothed value of a row \<open>i \<ge> 6\<close> is the arithmetic mean
  of the seven deltas of the rows \<open>i - 6\<close> to \<open>i\<close>, counted by row index, and the rows 0 to 5 have
  no smoothed value (NaN, not zero). For the deltas 0, 1, ..., 9 the mean at index 6 is 3.
\<close>

theorem rolling_mean_window:
  assumes "series = preprocess_data T s"
  shows "(\<forall>i. 6 \<le> i \<and> i < length series \<longrightarrow>
            (\<exists>vs. map (\<lambda>k. New_Cases (series ! k)) [i - 6..<Suc i] = map Some vs
                  \<and> New_Cases_MA (series ! i) = Some (sum_list vs / 7))
          \<and> (\<exists>vs. map (\<lambda>k. New_Deaths (series ! k)) [i - 6..<Suc i] = map Some vs
                  \<and> New_Deaths_MA (series ! i) = Some (sum_list vs / 7))
          \<and> (\<exists>vs. map (\<lambda>k. New_Recoveries (series ! k)) [i - 6..<Suc i] = map Some vs
                  \<and> New_Recoveries_MA (series ! i) = Some (sum_list vs / 7)))
       \<and> (\<forall>i. i < 6 \<and> i < length series \<longrightarrow>
            New_Cases_MA (series ! i) = None \<and> New_Deaths_MA (series ! i) = None
          \<and> New_Recoveries_MA (series ! i) = None)
       \<and> rolling_mean 7 (map Some [0, 1, 2, 3, 4, 5, 6, 7, 8, 9]) ! 6 = Some 3
       \<and> take 6 (rolling_mean 7 (map Some [0, 1, 2, 3, 4, 5, 6, 7, 8, 9])) = replicate 6 None"
proof (intro conjI allI impI)
  fix i assume i: "6 \<le> i \<and> i < length series"
  then have l: "i < length (select_group T s)"
    using assms by (simp add: length_preprocess_data)
  have rows: "\<And>k. k \<in> set [i - 6..<Suc i] \<Longrightarrow> k < length (preprocess_data T s)"
    using i assms by auto
  have c: "map (\<lambda>k. New_Cases (series ! k)) [i - 6..<Suc i]
         = map (\<lambda>k. new_column (map gConfirmed (select_group T s)) ! k) [i - 6..<Suc i]"
    unfolding assms by (rule map_cong [OF refl]) (simp add: rows preprocess_data_nth)
  have d: "map (\<lambda>k. New_Deaths (series ! k)) [i - 6..<Suc i]
         = map (\<lambda>k. new_column (map gDeaths (select_group T s)) ! k) [i - 6..<Suc i]"
    unfolding assms by (rule map_cong [OF refl]) (simp add: rows preprocess_data_nth)
  have r: "map (\<lambda>k. New_Recoveries (series ! k)) [i - 6..<Suc i]
         = map (\<lambda>k. new_column (map gCured (select_group T s)) ! k) [i - 6..<Suc i]"
    unfolding assms by (rule map_cong [OF refl]) (simp add: rows preprocess_data_nth)
  have ii: "i < length (preprocess_data T s)" using i assms by simp
  show "\<exists>vs. map (\<lambda>k. New_Cases (series ! k)) [i - 6..<Suc i] = map Some vs
             \<and> New_Cases_MA (series ! i) = Some (sum_list vs / 7)"
    using rolling_new_column_ge [of i "map gConfirmed (select_group T s)"] i l ii
    unfolding c unfolding assms by (simp add: preprocess_data_nth)
  show "\<exists>vs. map (\<lambda>k. New_Deaths (series ! k)) [i - 6..<Suc i] = map Some vs
             \<and> New_Deaths_MA (series ! i) = Some (sum_list vs / 7)"
    using rolling_new_column_ge [of i "map gDeaths (select_group T s)"] i l ii
    unfolding d unfolding assms by (simp add: preprocess_data_nth)
  show "\<exists>vs. map (\<lambda>k. New_Recoveries (series ! k)) [i - 6..<Suc i] = map Some vs
             \<and> New_Recoveries_MA (series ! i) = Some (sum_list vs / 7)"
    using rolling_new_column_ge [of i "map gCured (select_group T s)"] i l ii
    unfolding r unfolding assms by (simp add: preprocess_data_nth)
next
  fix i assume i: "i < 6 \<and> i < length series"
  then have l: "i < length (select_group T s)" "i < length (preprocess_data T s)"
    using assms by (simp_all add: length_preprocess_data)
  show "New_Cases_MA (series ! i) = None"
    using i l unfolding assms by (simp add: preprocess_data_nth rolling_new_column_lt)
  show "New_Deaths_MA (series ! i) = None"
    using i l unfolding assms by (simp add: preprocess_data_nth rolling_new_column_lt)
  show "New_Recoveries_MA (series ! i) = None"
    using i l unfolding assms by (simp add: preprocess_data_nth rolling_new_column_lt)
next
  show "rolling_mean 7 (map Some [0, 1, 2, 3, 4, 5, 6, 7, 8, 9]) ! 6 = Some 3"
    by code_simp
  show "take 6 (rolling_mean 7 (map Some [0, 1, 2, 3, 4, 5, 6, 7, 8, 9])) = replicate 6 None"
    by code_simp
qed

theorem rolling_mean_window_witness:
  "map sDate (preprocess_data example_ten_days ''A'') = [0, 1, 2, 3, 4, 5, 12, 20, 21, 30]
   \<and> map New_Cases (preprocess_data example_ten_days ''A'') = map Some [0, 1, 2, 3, 4, 5, 6, 7, 8, 9]
   \<and> New_Cases_MA (preprocess_data example_ten_days ''A'' ! 6) = Some 3
   \<and> New_Cases_MA (preprocess_data example_ten_days ''A'' ! 5) = None"
proof -
  let ?S = "preprocess_data example_ten_days ''A''"
  note inst = rolling_mean_window [OF refl, of example_ten_days "''A''"]
  have len: "length ?S = 10" by code_simp
  have col: "map New_Cases ?S = map Some [0, 1, 2, 3, 4, 5, 6, 7, 8, 9]" by code_simp
  have dates: "map sDate ?S = [0, 1, 2, 3, 4, 5, 12, 20, 21, 30]" by code_simp
  have win: "map (\<lambda>k. New_Cases (?S ! k)) [6 - 6..<Suc 6] = map Some [0, 1, 2, 3, 4, 5, 6]"
    by code_simp
  have "(6::nat) \<le> 6 \<and> 6 < length ?S" using len by simp
  with inst obtain vs where
    vs: "map (\<lambda>k. New_Cases (?S ! k)) [6 - 6..<Suc 6] = map Some vs"
    and ma: "New_Cases_MA (?S ! 6) = Some (sum_list vs / 7)"
    by blast
  from vs win have "map Some vs = map Some [0, 1, 2, 3, 4, 5, 6 :: real]" by simp
  then have "vs = [0, 1, 2, 3, 4, 5, 6]" by (auto simp: map_eq_Cons_conv)
  with ma have six: "New_Cases_MA (?S ! 6) = Some 3" by simp
  have "(5::nat) < 6 \<and> 5 < length ?S" using len by simp
  with inst have five: "New_Cases_MA (?S ! 5) = None" by blast
  show ?thesis using dates col six five by simp
qed

section \<open>Grouping by date\<close>

lemma set_map_filter_Date: "set (List.map_filter Date T) = {d. \<exists>r \<in> set T. Date r = Some d}"
  by (auto simp: List.map_filter_def image_iff) (metis option.sel)+

lemma group_keys_strict: "sorted_wrt (<) (group_keys T)"
  by (simp add: group_keys_def strict_sorted_iff)

lemma set_group_keys: "set (group_keys T) = {d. \<exists>r \<in> set T. Date r = Some d}"
  by (simp add: group_keys_def set_map_filter_Date)

lemma map_gDate_groupby_sum: "map gDate (groupby_sum T) = group_keys T"
  by (simp add: groupby_sum_def group_sum_def Let_def comp_def)

lemma map_sDate_add_columns: "map sDate (add_columns g) = map gDate g"
  by (rule nth_equalityI) (simp_all add: length_add_columns add_columns_nth)

lemma map_sConfirmed_add_columns: "map sConfirmed (add_columns g) = map gConfirmed g"
  by (rule nth_equalityI) (simp_all add: length_add_columns add_columns_nth)

lemma map_sDeaths_add_columns: "map sDeaths (add_columns g) = map gDeaths g"
  by (rule nth_equalityI) (simp_all add: length_add_columns add_columns_nth)

lemma map_sCured_add_columns: "map sCured (add_columns g) = map gCured g"
  by (rule nth_equalityI) (simp_all add: length_add_columns add_columns_nth)

lemma select_group_eq: "select_group T s = groupby_sum (selected_rows T s)"
  by (simp add: select_group_def selected_rows_def)

lemma dates_preprocess_data: "map sDate (preprocess_data T s) = group_keys (selected_rows T s)"
  by (simp add: preprocess_data_def map_sDate_add_columns select_group_eq map_gDate_groupby_sum)

lemma row_of_preprocess_data:
  assumes "r \<in> set (preprocess_data T s)"
  shows "sConfirmed r = sum_list (map Confirmed (filter (\<lambda>x. Date x = Some (sDate r)) (selected_rows T s)))
       \<and> sDeaths r = sum_list (map Deaths (filter (\<lambda>x. Date x = Some (sDate r)) (selected_rows T s)))
       \<and> sCured r = sum_list (map Cured (filter (\<lambda>x. Date x = Some (sDate r)) (selected_rows T s)))"
proof -
  from assms obtain i where i: "i < length (preprocess_data T s)" and r: "r = preprocess_data T s ! i"
    by (auto simp: in_set_conv_nth)
  then have l: "i < length (group_keys (selected_rows T s))"
    by (simp add: length_preprocess_data select_group_eq groupby_sum_def)
  have "select_group T s ! i = group_sum (selected_rows T s) (group_keys (selected_rows T s) ! i)"
    using l by (simp add: select_group_eq groupby_sum_def)
  then show ?thesis using i by (simp add: r preprocess_data_nth group_sum_def Let_def)
qed

text \<open>
  Claim C3. With the filter for all regions (the selection \<^verbatim>\<open>'All India'\<close>) the derived series
  has exactly one row per date of the input, in ascending order of the dates, and the confirmed,
  deaths and cured values of a row are the sums over all input rows of its date. For the regions
  A with confirmed 10, 20 and B with confirmed 5, 15 on the same two dates, the selection of all
  regions gives confirmed 15, 35 and the selection of A gives 10, 20.
\<close>

theorem all_india_sums_per_date:
  assumes "series = preprocess_data T ''All India''"
  shows "sorted_wrt (<) (map sDate series)
       \<and> set (map sDate series) = {d. \<exists>x \<in> set T. Date x = Some d}
       \<and> (\<forall>r \<in> set series.
            sConfirmed r = sum_list (map Confirmed (filter (\<lambda>x. Date x = Some (sDate r)) T))
          \<and> sDeaths r = sum_list (map Deaths (filter (\<lambda>x. Date x = Some (sDate r)) T))
          \<and> sCured r = sum_list (map Cured (filter (\<lambda>x. Date x = Some (sDate r)) T)))
       \<and> map sConfirmed (preprocess_data example_two_regions ''All India'') = [15, 35]
       \<and> map sConfirmed (preprocess_data example_two_regions ''A'') = [10, 20]"
proof (intro conjI ballI)
  show "sorted_wrt (<) (map sDate series)"
    unfolding assms by (simp add: dates_preprocess_data group_keys_strict)
  show "set (map sDate series) = {d. \<exists>x \<in> set T. Date x = Some d}"
    unfolding assms by (simp add: dates_preprocess_data set_group_keys selected_rows_def)
next
  fix r assume "r \<in> set series"
  then have r: "r \<in> set (preprocess_data T ''All India'')" by (simp add: assms)
  have all: "selected_rows T ''All India'' = T" by (simp add: selected_rows_def)
  show "sConfirmed r = sum_list (map Confirmed (filter (\<lambda>x. Date x = Some (sDate r)) T))"
    using row_of_preprocess_data [OF r] by (simp add: all)
  show "sDeaths r = sum_list (map Deaths (filter (\<lambda>x. Date x = Some (sDate r)) T))"
    using row_of_preprocess_data [OF r] by (simp add: all)
  show "sCured r = sum_list (map Cured (filter (\<lambda>x. Date x = Some (sDate r)) T))"
    using row_of_preprocess_data [OF r] by (simp add: all)
next
  show "map sConfirmed (preprocess_data example_two_regions ''All India'') = [15, 35]"
    by code_simp
  show "map sConfirmed (preprocess_data example_two_regions ''A'') = [10, 20]"
    by code_simp
qed

theorem all_india_sums_per_date_witness:
  "map sDate (preprocess_data example_two_regions ''All India'') = [0, 1]
   \<and> sConfirmed (preprocess_data example_two_regions ''All India'' ! 1) = 20 + 15"
proof -
  let ?S = "preprocess_data example_two_regions ''All India''"
  note inst = all_india_sums_per_date [OF refl, of example_two_regions]
  have d: "map sDate ?S = [0, 1]" by code_simp
  have len: "length ?S = 2" by code_simp
  then have "?S ! 1 \<in> set ?S" by simp
  with inst have "sConfirmed (?S ! 1)
      = sum_list (map Confirmed (filter (\<lambda>x. Date x = Some (sDate (?S ! 1))) example_two_regions))"
    by blast
  moreover have "sDate (?S ! 1) = 1" by code_simp
  moreover have "sum_list (map Confirmed (filter (\<lambda>x. Date x = Some 1) example_two_regions)) = 20 + 15"
    by code_simp
  ultimately show ?thesis using d by simp
qed

section \<open>The summary metrics\<close>

lemma col_max_Max: "xs \<noteq> [] \<Longrightarrow> col_max xs = Some (Max (set xs))"
proof (cases xs)
  case Nil
  assume "xs \<noteq> []"
  with Nil show ?thesis by simp
next
  case (Cons a list)
  have "fold max list a = Max (set (a # list))" by (rule Max.set_eq_fold [symmetric])
  then show ?thesis by (simp add: Cons col_max_def)
qed

lemma strict_sorted_last:
  assumes "sorted_wrt (<) (map f xs)" "xs \<noteq> []"
  shows "filter (\<lambda>r. f r = f (last xs)) xs = [last xs] \<and> Max (set (map f xs)) = f (last xs)"
proof -
  from assms(2) obtain ys y where xs: "xs = ys @ [y]" by (cases xs rule: rev_cases) auto
  have lt: "\<forall>r \<in> set ys. f r < f y"
    using assms(1) by (auto simp: xs sorted_wrt_append)
  then have "filter (\<lambda>r. f r = f y) ys = []" by (auto simp: filter_empty_conv)
  moreover have "Max (insert (f y) (f ` set ys)) = f y"
    using lt by (intro Max_eqI) (auto simp: less_imp_le)
  ultimately show ?thesis by (simp add: xs)
qed

lemma latest_data_last:
  assumes "preprocess_data T s \<noteq> []"
  shows "latest_data (preprocess_data T s) = [last (preprocess_data T s)]"
proof -
  let ?S = "preprocess_data T s"
  have sorted: "sorted_wrt (<) (map sDate ?S)"
    by (simp add: dates_preprocess_data group_keys_strict)
  have "col_max (map sDate ?S) = Some (sDate (last ?S))"
    using assms strict_sorted_last [OF sorted] by (simp add: col_max_Max)
  then have "latest_data ?S = filter (\<lambda>r. sDate r = sDate (last ?S)) ?S"
    by (simp add: latest_data_def)
  then show ?thesis using assms strict_sorted_last [OF sorted] by simp
qed

lemma Max_is_last:
  assumes "xs \<noteq> []" "\<forall>r \<in> set xs. f r \<le> f (last xs)"
  shows "Max (set (map f xs)) = f (last xs)"
  using assms by (intro Max_eqI) auto

text \<open>
  What \<^verbatim>\<open>main\<close> computes. For a derived series that has a row, the rows of the latest date
  are the last row alone; total confirmed, deaths and cured are the greatest values of their
  columns over the whole series, and active is the greatest confirmed minus the greatest cured
  minus the greatest deaths. These are the values of the last row when in each of the three
  columns no row exceeds the last row.
\<close>

lemma main_metrics_column_max:
  assumes "series = preprocess_data T s" "series \<noteq> []"
  shows "latest_data series = [last series]
       \<and> Total_Cases (main_metrics series) = Some (Max (set (map sConfirmed series)))
       \<and> Total_Deaths (main_metrics series) = Some (Max (set (map sDeaths series)))
       \<and> Total_Recoveries (main_metrics series) = Some (Max (set (map sCured series)))
       \<and> Active_Cases (main_metrics series) =
            Some (Max (set (map sConfirmed series)) - Max (set (map sCured series))
                  - Max (set (map sDeaths series)))
       \<and> ((\<forall>r \<in> set series. sConfirmed r \<le> sConfirmed (last series)
              \<and> sDeaths r \<le> sDeaths (last series) \<and> sCured r \<le> sCured (last series)) \<longrightarrow>
            Total_Cases (main_metrics series) = Some (sConfirmed (last series))
          \<and> Total_Deaths (main_metrics series) = Some (sDeaths (last series))
          \<and> Total_Recoveries (main_metrics series) = Some (sCured (last series))
          \<and> Active_Cases (main_metrics series) =
              Some (sConfirmed (last series) - sCured (last series) - sDeaths (last series)))"
proof -
  have m: "col_max (map sConfirmed series) = Some (Max (set (map sConfirmed series)))"
      "col_max (map sDeaths series) = Some (Max (set (map sDeaths series)))"
      "col_max (map sCured series) = Some (Max (set (map sCured series)))"
    using assms(2) by (simp_all add: col_max_Max)
  have a: "latest_data series = [last series]"
    using assms latest_data_last by simp
  have b: "Total_Cases (main_metrics series) = Some (Max (set (map sConfirmed series)))"
      "Total_Deaths (main_metrics series) = Some (Max (set (map sDeaths series)))"
      "Total_Recoveries (main_metrics series) = Some (Max (set (map sCured series)))"
      "Active_Cases (main_metrics series) =
            Some (Max (set (map sConfirmed series)) - Max (set (map sCured series))
                  - Max (set (map sDeaths series)))"
    by (simp_all add: main_metrics_def m nan_minus_def)
  have c: "Max (set (map sConfirmed series)) = sConfirmed (last series)
         \<and> Max (set (map sDeaths series)) = sDeaths (last series)
         \<and> Max (set (map sCured series)) = sCured (last series)"
    if "\<forall>r \<in> set series. sConfirmed r \<le> sConfirmed (last series)
              \<and> sDeaths r \<le> sDeaths (last series) \<and> sCured r \<le> sCured (last series)"
    using that assms(2) Max_is_last [of series sConfirmed] Max_is_last [of series sDeaths]
      Max_is_last [of series sCured] by blast
  show ?thesis using a b c by simp
qed

lemma ex_regressing_series:
  "preprocess_data example_regressing ''A'' =
     [\<lparr>sDate = 0, sConfirmed = 100, sDeaths = 0, sCured = 90, New_Cases = Some 0, New_Deaths = Some 0,
       New_Recoveries = Some 0, New_Cases_MA = None, New_Deaths_MA = None, New_Recoveries_MA = None\<rparr>,
      \<lparr>sDate = 1, sConfirmed = 100, sDeaths = 10, sCured = 0, New_Cases = Some 0, New_Deaths = Some 10,
       New_Recoveries = Some 0, New_Cases_MA = None, New_Deaths_MA = None, New_Recoveries_MA = None\<rparr>,
      \<lparr>sDate = 2, sConfirmed = 60, sDeaths = 10, sCured = 20, New_Cases = Some 0, New_Deaths = Some 0,
       New_Recoveries = Some 20, New_Cases_MA = None, New_Deaths_MA = None, New_Recoveries_MA = None\<rparr>]"
  by code_simp

text \<open>
  Claim C1. The four metrics are to be the cumulative values of the row of the latest date, with
  active as confirmed minus cured minus deaths of that row. The code takes the greatest value of
  each column instead (\<^verbatim>\<open>.max()\<close>), which is the value of the latest row only for a column
  that never regresses. For the confirmed, deaths and cured values (100, 0, 90), (100, 10, 0),
  (60, 10, 20) of three dates the latest row holds 60, 10, 20 and active 30, and the code shows
  100, 10, 90 and active 0, which is the active count of none of the dates (10, 90, 30). For
  (10, 1, 0), (12, 2, 5), (8, 2, 3) the latest row holds 8, 2, 3 and active 3, and the code shows
  12, 2, 5 and active 5.
\<close>

theorem summary_metrics_not_latest:
  "latest_data (preprocess_data example_regressing ''A'')
     = [last (preprocess_data example_regressing ''A'')]
   \<and> sConfirmed (last (preprocess_data example_regressing ''A'')) = 60
   \<and> sDeaths (last (preprocess_data example_regressing ''A'')) = 10
   \<and> sCured (last (preprocess_data example_regressing ''A'')) = 20
   \<and> main_metrics (preprocess_data example_regressing ''A'')
       = \<lparr>Total_Cases = Some 100, Total_Deaths = Some 10, Total_Recoveries = Some 90,
          Active_Cases = Some 0\<rparr>
   \<and> map (\<lambda>r. sConfirmed r - sCured r - sDeaths r) (preprocess_data example_regressing ''A'')
       = [10, 90, 30]
   \<and> latest_data (preprocess_data example_corrected ''A'')
       = [last (preprocess_data example_corrected ''A'')]
   \<and> sConfirmed (last (preprocess_data example_corrected ''A'')) = 8
   \<and> sDeaths (last (preprocess_data example_corrected ''A'')) = 2
   \<and> sCured (last (preprocess_data example_corrected ''A'')) = 3
   \<and> main_metrics (preprocess_data example_corrected ''A'')
       = \<lparr>Total_Cases = Some 12, Total_Deaths = Some 2, Total_Recoveries = Some 5,
          Active_Cases = Some 5\<rparr>"
  by (simp add: ex_regressing_series ex_corrected_series latest_data_def main_metrics_def
      col_max_def nan_minus_def)

text \<open>
  Claim C8. For a region label that is the state of no row (compared exactly, character by
  character), the aggregation gives the empty series, and the metrics and the latest rows
  computed from it are NaN and empty: nothing raises.
\<close>

theorem unknown_region_empty:
  assumes "s \<noteq> ''All India''" "\<forall>r \<in> set T. State r \<noteq> Some s"
  shows "preprocess_data T s = []
       \<and> main_metrics (preprocess_data T s) =
           \<lparr>Total_Cases = None, Total_Deaths = None, Total_Recoveries = None, Active_Cases = None\<rparr>
       \<and> latest_data (preprocess_data T s) = []"
proof -
  have "filter (\<lambda>r. State r = Some s) T = []"
    using assms(2) by (simp add: filter_empty_conv)
  then have "select_group T s = []"
    using assms(1) by (simp add: select_group_def groupby_sum_def group_keys_def List.map_filter_def)
  then have "preprocess_data T s = []"
    by (simp add: preprocess_data_def add_columns_def)
  then show ?thesis
    by (simp add: main_metrics_def col_max_def nan_minus_def latest_data_def)
qed

theorem unknown_region_empty_witness:
  "preprocess_data example_two_regions ''a'' = []
   \<and> Total_Cases (main_metrics (preprocess_data example_two_regions ''a'')) = None
   \<and> Active_Cases (main_metrics (preprocess_data example_two_regions ''a'')) = None
   \<and> preprocess_data example_two_regions ''A'' \<noteq> []"
proof -
  have a: "''a'' \<noteq> ''All India''" by simp
  have b: "\<forall>r \<in> set example_two_regions. State r \<noteq> Some ''a''"
    by (simp add: example_two_regions_def)
  have c: "preprocess_data example_two_regions ''A'' \<noteq> []" by code_simp
  note inst = unknown_region_empty [OF a b]
  from inst have e: "preprocess_data example_two_regions ''a'' = []" by blast
  from inst have m: "main_metrics (preprocess_data example_two_regions ''a'') =
      \<lparr>Total_Cases = None, Total_Deaths = None, Total_Recoveries = None, Active_Cases = None\<rparr>"
    by blast
  have "Total_Cases (main_metrics (preprocess_data example_two_regions ''a'')) = None"
    "Active_Cases (main_metrics (preprocess_data example_two_regions ''a'')) = None"
    by (simp_all add: m)
  then show ?thesis using e c by blast
qed

section \<open>The loader\<close>

lemma to_datetime_Inr:
  "to_datetime pd cs = Inr ds \<Longrightarrow> ds = map (parsed pd) cs \<and> (\<forall>s. Some s \<in> set cs \<longrightarrow> pd s \<noteq> None)"
  by (induction pd cs arbitrary: ds rule: to_datetime.induct)
     (auto simp: parsed_def split: sum.splits option.splits)



lemma to_datetime_Inl_only:
  "to_datetime pd cs = Inl e \<Longrightarrow> \<exists>t. e = ValueError t \<and> pd t = None \<and> Some t \<in> set cs"
  by (induction pd cs rule: to_datetime.induct)
     (auto split: sum.splits option.splits)

lemma column_astype_int_Inr:
  "column_astype_int vs = Inr ns \<longleftrightarrow> map astype_int vs = map Inr ns"
proof (induction vs arbitrary: ns)
  case Nil
  show ?case by auto
next
  case (Cons v vs)
  show ?case
  proof (cases "astype_int v")
    case (Inl e)
    then show ?thesis by (cases ns) auto
  next
    case n: (Inr n)
    show ?thesis
    proof (cases "column_astype_int vs")
      case (Inl e)
      with Cons.IH have "\<And>ms. map astype_int vs \<noteq> map Inr ms" by simp
      then show ?thesis using n Inl by (cases ns) auto
    next
      case (Inr ms)
      with Cons.IH [of ms] have ms: "map astype_int vs = map Inr ms" by simp
      show ?thesis
      proof (cases ns)
        case Nil
        then show ?thesis using n Inr by simp
      next
        case (Cons m ms')
        have "map Inr ms = map Inr ms' \<longleftrightarrow> ms = ms'"
          by (simp add: inj_map_eq_map)
        then show ?thesis using n Inr ms Cons by auto
      qed
    qed
  qed
qed


lemma clean_column_Inr:
  "clean_column pn col = Inr ns \<longleftrightarrow> map (clean_counter pn) col = map Inr ns"
proof -
  have "map (clean_counter pn) col
      = map astype_int (map (\<lambda>c. fillna_num (to_numeric pn (fillna_cell c))) col)"
    by (simp add: clean_counter_def)
  then show ?thesis by (simp only: clean_column_def column_astype_int_Inr)
qed






lemma set_drop_duplicates: "set (drop_duplicates rs) \<subseteq> set rs"
  by (induction rs) auto


lemma drop_duplicates_keeps_last:
  "k \<in> key ` set rs \<Longrightarrow>
     filter (\<lambda>r. key r = k) (drop_duplicates rs) = [last (filter (\<lambda>r. key r = k) rs)]"
proof (induction rs)
  case Nil
  then show ?case by simp
next
  case (Cons r rs)
  show ?case
  proof (cases "key r \<in> key ` set rs")
    case True
    with Cons.prems have k: "k \<in> key ` set rs" by auto
    then have "filter (\<lambda>r. key r = k) rs \<noteq> []" by (auto simp: filter_empty_conv)
    then show ?thesis using True Cons.IH [OF k] by simp
  next
    case False
    show ?thesis
    proof (cases "key r = k")
      case True
      with False have "\<forall>x \<in> set rs. key x \<noteq> k" by (metis imageI)
      then have "filter (\<lambda>r. key r = k) rs = []"
        "filter (\<lambda>r. key r = k) (drop_duplicates rs) = []"
        using set_drop_duplicates [of rs] by (auto simp: filter_empty_conv)
      then show ?thesis using False True by simp
    next
      case neq: False
      with Cons.prems have k: "k \<in> key ` set rs" by auto
      then have "filter (\<lambda>r. key r = k) rs \<noteq> []" by (auto simp: filter_empty_conv)
      then show ?thesis using False neq Cons.IH [OF k] by simp
    qed
  qed
qed

lemma filter_sort_values_single:
  assumes "filter P T = [x]"
  shows "filter P (sort_values T) = [x]"
proof (cases "Date x = None")
  case True
  have "filter (\<lambda>r. Date r = None) (filter P T) = [x]" "filter (\<lambda>r. Date r \<noteq> None) (filter P T) = []"
    using True by (simp_all add: assms)
  then have "filter P (filter (\<lambda>r. Date r = None) T) = [x]" "filter P (filter (\<lambda>r. Date r \<noteq> None) T) = []"
    by (simp_all add: conj_commute)
  then show ?thesis by (simp add: sort_values_def filter_sort)
next
  case False
  have "filter (\<lambda>r. Date r = None) (filter P T) = []" "filter (\<lambda>r. Date r \<noteq> None) (filter P T) = [x]"
    using False by (simp_all add: assms)
  then have "filter P (filter (\<lambda>r. Date r = None) T) = []" "filter P (filter (\<lambda>r. Date r \<noteq> None) T) = [x]"
    by (simp_all add: conj_commute)
  then show ?thesis by (simp add: sort_values_def filter_sort)
qed


lemma str_strip_Inr: "str_strip col = Inr ss \<Longrightarrow> ss = map (map_option strip) col"
  by (auto simp: str_strip_def split: if_splits)

lemma str_strip_Inl:
  "str_strip col = Inl e \<longleftrightarrow> e = AttributeError \<and> col \<noteq> [] \<and> (\<forall>c \<in> set col. c = None)"
  by (auto simp: str_strip_def list_all_iff)

lemma clean_column_nth:
  assumes "clean_column pn (map f raw) = Inr ns"
  shows "length ns = length raw \<and> (\<forall>i < length raw. clean_counter pn (f (raw ! i)) = Inr (ns ! i))"
proof -
  from assms have eq: "map (clean_counter pn) (map f raw) = map Inr ns"
    by (simp only: clean_column_Inr)
  then have len: "length ns = length raw" by (metis length_map)
  have "clean_counter pn (f (raw ! i)) = Inr (ns ! i)" if "i < length raw" for i
  proof -
    have "map (clean_counter pn) (map f raw) ! i = map Inr ns ! i" by (simp only: eq)
    then show ?thesis using that len by simp
  qed
  with len show ?thesis by blast
qed

lemma cleaned_Inr:
  assumes "cleaned pd pn raw = Inr rows"
  shows "list_all2 (cleaning_of pd pn) raw rows"
    and "\<forall>t. Some t \<in> set (map Date_raw raw) \<longrightarrow> pd t \<noteq> None"
    and "raw = [] \<or> (\<exists>x \<in> set raw. State_raw x \<noteq> None)"
proof -
  from assms obtain ds ss cs xs us where
    ds: "to_datetime pd (map Date_raw raw) = Inr ds"
    and ss: "str_strip (map State_raw raw) = Inr ss"
    and cs: "clean_column pn (map Confirmed_raw raw) = Inr cs"
    and xs: "clean_column pn (map Deaths_raw raw) = Inr xs"
    and us: "clean_column pn (map Cured_raw raw) = Inr us"
    and rows: "rows = map (\<lambda>i. \<lparr>Date = ds ! i, State = ss ! i, Confirmed = cs ! i, Deaths = xs ! i,
                          Cured = us ! i\<rparr>) [0..<length raw]"
    by (auto simp: cleaned_def split: sum.splits)
  from to_datetime_Inr [OF ds] have d: "ds = map (parsed pd) (map Date_raw raw)"
    and p: "\<forall>t. Some t \<in> set (map Date_raw raw) \<longrightarrow> pd t \<noteq> None" by blast+
  from str_strip_Inr [OF ss] have s: "ss = map (map_option strip) (map State_raw raw)" .
  note c = clean_column_nth [OF cs] and x = clean_column_nth [OF xs] and u = clean_column_nth [OF us]
  show "list_all2 (cleaning_of pd pn) raw rows"
    unfolding list_all2_conv_all_nth
  proof (intro conjI allI impI)
    show "length raw = length rows" by (simp add: rows)
  next
    fix i assume "i < length raw"
    then show "cleaning_of pd pn (raw ! i) (rows ! i)"
      using c x u by (simp add: rows cleaning_of_def d s)
  qed
  show "\<forall>t. Some t \<in> set (map Date_raw raw) \<longrightarrow> pd t \<noteq> None" by (rule p)
  show "raw = [] \<or> (\<exists>x \<in> set raw. State_raw x \<noteq> None)"
  proof (rule ccontr)
    assume "\<not> (raw = [] \<or> (\<exists>x \<in> set raw. State_raw x \<noteq> None))"
    then have "str_strip (map State_raw raw) = Inl AttributeError"
      by (simp add: str_strip_Inl)
    with ss show False by simp
  qed
qed



lemma load_data_Inr:
  assumes "load_data pd pn raw = Inr T"
  shows "\<exists>rows. cleaned pd pn raw = Inr rows \<and> T = sort_values (drop_duplicates rows)"
  using assms by (auto simp: load_data_def split: sum.splits)






text \<open>
  Claim C7. When rows of the input share a key (the parsed date and the stripped state), the
  cleaned table holds exactly one row of that key, and this row is the cleaning of the last of
  them in the order of the input.
\<close>

theorem duplicates_keep_last:
  assumes "load_data pd pn raw = Inr T"
    and "cleaned pd pn raw = Inr rows"
  shows "list_all2 (cleaning_of pd pn) raw rows
       \<and> (\<forall>k \<in> key ` set rows.
             filter (\<lambda>r. key r = k) T = [last (filter (\<lambda>r. key r = k) rows)])"
proof (intro conjI ballI)
  show "list_all2 (cleaning_of pd pn) raw rows" using assms(2) by (rule cleaned_Inr(1))
next
  fix k assume k: "k \<in> key ` set rows"
  from load_data_Inr [OF assms(1)] have T: "T = sort_values (drop_duplicates rows)"
    by (simp add: assms(2))
  show "filter (\<lambda>r. key r = k) T = [last (filter (\<lambda>r. key r = k) rows)]"
    unfolding T by (rule filter_sort_values_single) (rule drop_duplicates_keeps_last [OF k])
qed

lemma ex_duplicates_cleaned:
  "cleaned example_parse_date example_parse_num example_duplicates =
     Inr [\<lparr>Date = Some 1, State = Some ''A'', Confirmed = 10, Deaths = 0, Cured = 0\<rparr>,
          \<lparr>Date = Some 0, State = Some ''A'', Confirmed = 7, Deaths = 1, Cured = 2\<rparr>,
          \<lparr>Date = Some 1, State = Some ''A'', Confirmed = 11, Deaths = 3, Cured = 12\<rparr>]"
  by code_simp

theorem duplicates_keep_last_witness:
  "load_data example_parse_date example_parse_num example_duplicates =
     Inr [\<lparr>Date = Some 0, State = Some ''A'', Confirmed = 7, Deaths = 1, Cured = 2\<rparr>,
          \<lparr>Date = Some 1, State = Some ''A'', Confirmed = 11, Deaths = 3, Cured = 12\<rparr>]
   \<and> filter (\<lambda>r. key r = (Some 1, Some ''A''))
        [\<lparr>Date = Some 0, State = Some ''A'', Confirmed = 7, Deaths = 1, Cured = 2\<rparr>,
         \<lparr>Date = Some 1, State = Some ''A'', Confirmed = 11, Deaths = 3, Cured = 12\<rparr>]
     = [\<lparr>Date = Some 1, State = Some ''A'', Confirmed = 11, Deaths = 3, Cured = 12\<rparr>]
   \<and> cleaning_of example_parse_date example_parse_num (example_duplicates ! 2)
        \<lparr>Date = Some 1, State = Some ''A'', Confirmed = 11, Deaths = 3, Cured = 12\<rparr>"
proof -
  let ?rows = "[\<lparr>Date = Some 1, State = Some ''A'', Confirmed = 10, Deaths = 0, Cured = 0\<rparr>,
          \<lparr>Date = Some 0, State = Some ''A'', Confirmed = 7, Deaths = 1, Cured = 2\<rparr>,
          \<lparr>Date = Some 1, State = Some ''A'', Confirmed = 11, Deaths = 3, Cured = 12\<rparr>]"
  have l: "load_data example_parse_date example_parse_num example_duplicates =
     Inr [\<lparr>Date = Some 0, State = Some ''A'', Confirmed = 7, Deaths = 1, Cured = 2\<rparr>,
          \<lparr>Date = Some 1, State = Some ''A'', Confirmed = 11, Deaths = 3, Cured = 12\<rparr>]"
    by code_simp
  note inst = duplicates_keep_last [OF l ex_duplicates_cleaned]
  have k: "(Some 1, Some ''A'') \<in> key ` set ?rows" by (simp add: key_def)
  have e: "last (filter (\<lambda>r. key r = (Some 1, Some ''A'')) ?rows)
         = \<lparr>Date = Some 1, State = Some ''A'', Confirmed = 11, Deaths = 3, Cured = 12\<rparr>"
    by (simp add: key_def)
  from inst k
  have f: "filter (\<lambda>r. key r = (Some 1, Some ''A''))
        [\<lparr>Date = Some 0, State = Some ''A'', Confirmed = 7, Deaths = 1, Cured = 2\<rparr>,
         \<lparr>Date = Some 1, State = Some ''A'', Confirmed = 11, Deaths = 3, Cured = 12\<rparr>]
     = [last (filter (\<lambda>r. key r = (Some 1, Some ''A'')) ?rows)]"
    by blast
  from inst have "list_all2 (cleaning_of example_parse_date example_parse_num) example_duplicates ?rows"
    by blast
  then have "cleaning_of example_parse_date example_parse_num (example_duplicates ! 2) (?rows ! 2)"
    by (rule list_all2_nthD2) simp
  then have c: "cleaning_of example_parse_date example_parse_num (example_duplicates ! 2)
        \<lparr>Date = Some 1, State = Some ''A'', Confirmed = 11, Deaths = 3, Cured = 12\<rparr>"
    by simp
  show ?thesis using l f c unfolding e by blast
qed




section \<open>The store\<close>

lemma rows_of_frame_of_cases: "rows_of_frame (frame_of_cases T) = Some T"
proof -
  have "map (\<lambda>i. \<lparr>Date = map Date T ! i, State = map State T ! i, Confirmed = map Confirmed T ! i,
                  Deaths = map Deaths T ! i, Cured = map Cured T ! i\<rparr>) [0..<length T] = T"
    by (rule nth_equalityI) simp_all
  then show ?thesis by (simp add: rows_of_frame_def frame_of_cases_def)
qed

lemma mask_map: "map snd (filter fst (zip (map P T) (map f T))) = map f (filter P T)"
  by (induction T) simp_all

lemma mask_frame_of_cases:
  "map (\<lambda>(n, c). (n, mask_column (map (\<lambda>v. v = Some s) (map State T)) c)) (frame_of_cases T)
     = frame_of_cases (filter (\<lambda>r. State r = Some s) T)"
proof -
  have m: "map (\<lambda>v. v = Some s) (map State T) = map (\<lambda>r. State r = Some s) T" by simp
  show ?thesis unfolding m by (simp add: frame_of_cases_def mask_column_def mask_map)
qed

lemma deref_old: "a < length h \<Longrightarrow> deref h a = Some (h ! a)"
  by (simp add: deref_def)

lemma deref_new: "deref (h @ [f]) (length h) = Some f"
  by (simp add: deref_def)

lemma setitem_new: "setitem (h @ [f]) (length h) name (Some c) = Some (h @ [set_column name c f])"
  by (simp add: setitem_def deref_new)

lemma get_ints_new: "map_of f name = Some (IntCol xs) \<Longrightarrow> get_ints (h @ [f]) (length h) name = Some xs"
  by (simp add: get_ints_def deref_new)

lemma get_floats_new: "map_of f name = Some (FloatCol xs) \<Longrightarrow> get_floats (h @ [f]) (length h) name = Some xs"
  by (simp add: get_floats_def deref_new)

lemma groupby_agg_cases:
  "a < length h \<Longrightarrow> h ! a = frame_of_cases T \<Longrightarrow>
     groupby_agg h a = Some (h @ [frame_of_groups (groupby_sum T)], length h)"
  by (simp add: groupby_agg_def deref_old rows_of_frame_of_cases alloc_def)

lemma select_state_cases:
  "a < length h \<Longrightarrow> h ! a = frame_of_cases T \<Longrightarrow>
     select_state h a s = Some (h @ [frame_of_cases (filter (\<lambda>r. State r = Some s) T)], length h)"
proof -
  assume a: "a < length h" "h ! a = frame_of_cases T"
  have f: "deref h a = Some (frame_of_cases T)" using a by (simp add: deref_old)
  have m: "map_of (frame_of_cases T) ''State/UnionTerritory'' = Some (StrCol (map State T))"
    by (simp add: frame_of_cases_def)
  show ?thesis
    by (simp only: select_state_def f m option.case column.case mask_frame_of_cases alloc_def)
qed

lemma copy_new: "copy (h @ [f]) (length h) = Some (h @ [f, f], Suc (length h))"
  by (simp add: copy_def deref_new alloc_def)

lemma map_New_Cases: "map New_Cases (add_columns g) = new_column (map gConfirmed g)"
  by (rule nth_equalityI) (simp_all add: length_add_columns length_new_column add_columns_nth)

lemma map_New_Deaths: "map New_Deaths (add_columns g) = new_column (map gDeaths g)"
  by (rule nth_equalityI) (simp_all add: length_add_columns length_new_column add_columns_nth)

lemma map_New_Recoveries: "map New_Recoveries (add_columns g) = new_column (map gCured g)"
  by (rule nth_equalityI) (simp_all add: length_add_columns length_new_column add_columns_nth)

lemma map_New_Cases_MA: "map New_Cases_MA (add_columns g) = rolling_mean 7 (new_column (map gConfirmed g))"
  by (rule nth_equalityI)
     (simp_all add: length_add_columns length_new_column length_rolling_mean add_columns_nth)

lemma map_New_Deaths_MA: "map New_Deaths_MA (add_columns g) = rolling_mean 7 (new_column (map gDeaths g))"
  by (rule nth_equalityI)
     (simp_all add: length_add_columns length_new_column length_rolling_mean add_columns_nth)

lemma map_New_Recoveries_MA: "map New_Recoveries_MA (add_columns g) = rolling_mean 7 (new_column (map gCured g))"
  by (rule nth_equalityI)
     (simp_all add: length_add_columns length_new_column length_rolling_mean add_columns_nth)

lemma frame_of_series_add_columns:
  "frame_of_series (add_columns g) =
     [(''Date'', DateCol (map (\<lambda>r. Some (gDate r)) g)),
      (''Confirmed'', IntCol (map gConfirmed g)),
      (''Deaths'', IntCol (map gDeaths g)),
      (''Cured'', IntCol (map gCured g)),
      (''New Cases'', FloatCol (new_column (map gConfirmed g))),
      (''New Deaths'', FloatCol (new_column (map gDeaths g))),
      (''New Recoveries'', FloatCol (new_column (map gCured g))),
      (''New Cases MA'', FloatCol (rolling_mean 7 (new_column (map gConfirmed g)))),
      (''New Deaths MA'', FloatCol (rolling_mean 7 (new_column (map gDeaths g)))),
      (''New Recoveries MA'', FloatCol (rolling_mean 7 (new_column (map gCured g))))]"
proof -
  have d: "map (\<lambda>r. Some (sDate r)) (add_columns g) = map (\<lambda>r. Some (gDate r)) g"
  proof -
    have "map Some (map sDate (add_columns g)) = map Some (map gDate g)"
      by (simp only: map_sDate_add_columns)
    then show ?thesis by (simp add: o_def)
  qed
  show ?thesis
    unfolding frame_of_series_def d map_sConfirmed_add_columns map_sDeaths_add_columns
      map_sCured_add_columns map_New_Cases map_New_Deaths map_New_Recoveries
      map_New_Cases_MA map_New_Deaths_MA map_New_Recoveries_MA
    by (rule refl)
qed

lemma assign_columns_groups:
  "assign_columns (h @ [frame_of_groups g]) (length h) = Some (h @ [frame_of_series (add_columns g)])"
  unfolding frame_of_series_add_columns
  by (simp add: assign_columns_def frame_of_groups_def setitem_new get_ints_new get_floats_new
      new_column_def)

lemma preprocess_data_store_eq:
  assumes "a < length h" "h ! a = frame_of_cases T"
  shows "preprocess_data_store h a s =
     (if s = ''All India''
      then Some (h @ [frame_of_series (preprocess_data T s)], length h)
      else Some (h @ [frame_of_cases (filter (\<lambda>r. State r = Some s) T),
                      frame_of_cases (filter (\<lambda>r. State r = Some s) T),
                      frame_of_series (preprocess_data T s)], length h + 2))"
proof (cases "s = ''All India''")
  case True
  then show ?thesis
    using assms by (simp add: preprocess_data_store_def groupby_agg_cases assign_columns_groups
        preprocess_data_def select_group_def)
next
  case False
  let ?F = "frame_of_cases (filter (\<lambda>r. State r = Some s) T)"
  have g: "groupby_agg (h @ [?F, ?F]) (Suc (length h))
         = Some ((h @ [?F, ?F]) @ [frame_of_groups (groupby_sum (filter (\<lambda>r. State r = Some s) T))],
                 length (h @ [?F, ?F]))"
    by (rule groupby_agg_cases) (simp_all add: nth_append)
  have c: "assign_columns ((h @ [?F, ?F]) @ [frame_of_groups (groupby_sum (filter (\<lambda>r. State r = Some s) T))])
            (length (h @ [?F, ?F]))
         = Some ((h @ [?F, ?F]) @ [frame_of_series (add_columns (groupby_sum (filter (\<lambda>r. State r = Some s) T)))])"
    by (rule assign_columns_groups)
  show ?thesis
    using False assms c
    by (simp add: preprocess_data_store_def select_state_cases copy_new g
        preprocess_data_def select_group_def)
qed


text \<open>
  Claim C10. The aggregation leaves the table it is given unchanged: for every cleaned table held
  by a frame of the store and every region filter, the call returns, the frame of the table and
  every other frame that existed before the call are the same afterwards, and the derived series
  is a frame that did not exist before; all assignments of the function go to that frame.
\<close>

theorem input_table_unchanged:
  assumes "cases_df < length h" "h ! cases_df = frame_of_cases T"
  shows "\<exists>h' state_data.
           preprocess_data_store h cases_df s = Some (h', state_data)
         \<and> h' ! cases_df = frame_of_cases T
         \<and> take (length h) h' = h
         \<and> length h \<le> state_data \<and> state_data < length h'
         \<and> h' ! state_data = frame_of_series (preprocess_data T s)"
proof (cases "s = ''All India''")
  case True
  have "preprocess_data_store h cases_df s
      = Some (h @ [frame_of_series (preprocess_data T s)], length h)"
    using preprocess_data_store_eq [OF assms, of s] True by simp
  then show ?thesis using assms by (simp add: nth_append)
next
  case False
  let ?F = "frame_of_cases (filter (\<lambda>r. State r = Some s) T)"
  have "preprocess_data_store h cases_df s
      = Some (h @ [?F, ?F, frame_of_series (preprocess_data T s)], length h + 2)"
    using preprocess_data_store_eq [OF assms, of s] False by simp
  then show ?thesis using assms by (simp add: nth_append)
qed

theorem input_table_unchanged_witness:
  "\<exists>h' state_data.
     preprocess_data_store [frame_of_cases example_two_regions] 0 ''A'' = Some (h', state_data)
   \<and> h' ! 0 = frame_of_cases example_two_regions
   \<and> take 1 h' = [frame_of_cases example_two_regions]
   \<and> 1 \<le> state_data \<and> state_data < length h'
   \<and> h' ! state_data = frame_of_series (preprocess_data example_two_regions ''A'')"
proof -
  have a: "0 < length [frame_of_cases example_two_regions]" by simp
  have b: "[frame_of_cases example_two_regions] ! 0 = frame_of_cases example_two_regions" by simp
  from input_table_unchanged [OF a b, of "''A''"] show ?thesis by simp
qed

section \<open>The order of the rows of the table does not matter\<close>

text \<open>The derived series depends on the rows of the table only as a multiset, and
  \<^verbatim>\<open>sort_values\<close> only reorders the rows: the order it gives to rows of equal date has no
  effect on what \<^verbatim>\<open>preprocess_data\<close> returns.\<close>

lemma group_keys_set: "group_keys T = sorted_list_of_set {d. \<exists>r \<in> set T. Date r = Some d}"
  unfolding group_keys_def set_map_filter_Date [symmetric]
  by (rule sorted_list_of_set_sort_remdups [symmetric])

lemma sum_list_filter_mset:
  "sum_list (map f (filter P T)) = sum_mset (image_mset f (filter_mset P (mset T)))"
proof -
  have "sum_mset (mset (map f (filter P T))) = sum_list (map f (filter P T))"
    by (rule sum_mset_sum_list)
  then show ?thesis by (simp only: mset_map mset_filter)
qed


lemma groupby_sum_permutation:
  assumes "mset T = mset T'"
  shows "groupby_sum T = groupby_sum T'"
proof -
  have "set T = set T'" using assms by (rule mset_eq_setD)
  then have k: "group_keys T = group_keys T'" by (simp only: group_keys_set)
  have "group_sum T = group_sum T'"
    by (rule ext) (simp only: group_sum_def Let_def sum_list_filter_mset assms)
  with k show ?thesis by (simp only: groupby_sum_def)
qed

lemma preprocess_data_permutation:
  assumes "mset T = mset T'"
  shows "preprocess_data T s = preprocess_data T' s"
proof -
  have "mset (filter (\<lambda>r. State r = Some s) T) = mset (filter (\<lambda>r. State r = Some s) T')"
    by (simp only: mset_filter assms)
  then have "groupby_sum (filter (\<lambda>r. State r = Some s) T) = groupby_sum (filter (\<lambda>r. State r = Some s) T')"
    by (rule groupby_sum_permutation)
  moreover have "groupby_sum T = groupby_sum T'"
    using assms by (rule groupby_sum_permutation)
  ultimately have "select_group T s = select_group T' s"
    by (simp only: select_group_def)
  then show ?thesis by (simp only: preprocess_data_def)
qed

lemma mset_sort_values: "mset (sort_values T) = mset T"
  by (simp add: sort_values_def)


end
